theory Spec2Isabelle
  imports Main
begin

section \<open>zap2xml.py: the windowed fetch-cache pipeline and its JSON to XMLTV transform\<close>

text \<open>
  A shallow embedding of \<^verbatim>\<open>src/zap2xml.py\<close>. Python strings and bytes are
  \<^typ>\<open>string\<close> (a list of 8-bit characters, so text is read as its UTF-8 bytes),
  Python's unbounded integers are \<^typ>\<open>int\<close>, every exception is a value of
  \<open>error\<close>, and the state the program works on (the cache directory, the
  clock, the network, the delays slept) is a record passed through explicitly.
\<close>

subsection \<open>Exceptions\<close>

text \<open>
  One constructor per exception class the program can raise. \<open>Unmodelled\<close> is not
  an exception of Python: it marks an input on which this model does not follow the
  library (a JSON number with a fraction, a feed outside the shape of the upstream
  contract, a time stamp in another form than the feed's).
\<close>

datatype error =
    HTTPError nat
  | URLError
  | OSError
  | ValueError
  | KeyError
  | TypeError
  | ZeroDivisionError
  | UnboundLocalError
  | JSONDecodeError
  | Unmodelled

subsection \<open>The pieces of Python's library the program uses\<close>

text \<open>\<^verbatim>\<open>str(n)\<close> of an integer: decimal digits, a minus sign when negative.\<close>

definition digit_char :: "nat \<Rightarrow> char" where
  "digit_char d = ''0123456789'' ! d"

fun str_nat :: "nat \<Rightarrow> string" where
  "str_nat n = (if n < 10 then [digit_char n] else str_nat (n div 10) @ [digit_char (n mod 10)])"

declare str_nat.simps [simp del]

definition str_int :: "int \<Rightarrow> string" where
  "str_int i = (if i < 0 then CHR ''-'' # str_nat (nat (- i)) else str_nat (nat i))"

text \<open>
  \<^verbatim>\<open>int(s)\<close> and \<^verbatim>\<open>int(s, 10)\<close> of a string of ASCII characters: white space
  (the bytes 9 to 13 and the space, 32; the separators 28 to 31 are not white space to
  \<^verbatim>\<open>int\<close>) is stripped at both ends, one sign may lead, then decimal digits, where
  single underscores may stand between two digits; anything else raises ValueError.
  Python also reads the digits and the white space of other scripts, and its newer
  versions refuse a text of more than 4300 digits: \<open>py_int\<close> is \<^verbatim>\<open>int\<close> on the
  texts \<open>short_ascii\<close> admits, of ASCII characters and at most 255 of them (a file
  name has at most 255 bytes).
\<close>

definition is_space :: "char \<Rightarrow> bool" where
  "is_space c = (let n = (of_char c :: nat) in (9 \<le> n \<and> n \<le> 13) \<or> n = 32)"

definition short_ascii :: "string \<Rightarrow> bool" where
  "short_ascii s = (length s \<le> 255 \<and> list_all (\<lambda>c. (of_char c :: nat) < 128) s)"

definition is_digit :: "char \<Rightarrow> bool" where
  "is_digit c = (let n = (of_char c :: nat) in 48 \<le> n \<and> n \<le> 57)"

definition digit_val :: "char \<Rightarrow> nat" where
  "digit_val c = (of_char c :: nat) - 48"

definition strip :: "string \<Rightarrow> string" where
  "strip s = rev (dropWhile is_space (rev (dropWhile is_space s)))"

fun digits_val :: "nat \<Rightarrow> string \<Rightarrow> nat option" where
  "digits_val acc [] = Some acc"
| "digits_val acc [c] = (if is_digit c then Some (acc * 10 + digit_val c) else None)"
| "digits_val acc (c # d # cs) =
     (if is_digit c then digits_val (acc * 10 + digit_val c) (d # cs)
      else if c = CHR ''_'' \<and> is_digit d then digits_val acc (d # cs)
      else None)"

definition unsigned_val :: "string \<Rightarrow> nat option" where
  "unsigned_val s = (case s of [] \<Rightarrow> None | c # _ \<Rightarrow> if is_digit c then digits_val 0 s else None)"

definition py_int :: "string \<Rightarrow> error + int" where
  "py_int s =
     (case strip s of
        [] \<Rightarrow> Inl ValueError
      | c # cs \<Rightarrow>
          (if c = CHR ''-'' then
             (case unsigned_val cs of None \<Rightarrow> Inl ValueError | Some n \<Rightarrow> Inr (- int n))
           else if c = CHR ''+'' then
             (case unsigned_val cs of None \<Rightarrow> Inl ValueError | Some n \<Rightarrow> Inr (int n))
           else
             (case unsigned_val (c # cs) of None \<Rightarrow> Inl ValueError | Some n \<Rightarrow> Inr (int n))))"

text \<open>
  \<^verbatim>\<open>s.replace(old, new)\<close> for a non-empty \<open>old\<close> (the program only passes the
  literals \<^verbatim>\<open>'Z'\<close>, \<^verbatim>\<open>'//'\<close> and \<^verbatim>\<open>'filter-'\<close>): every occurrence, left to right,
  without overlap.
\<close>

fun replace :: "string \<Rightarrow> string \<Rightarrow> string \<Rightarrow> string" where
  "replace old new [] = []"
| "replace old new (c # cs) =
     (if old \<noteq> [] \<and> take (length old) (c # cs) = old
      then new @ replace old new (drop (length old - 1) cs)
      else c # replace old new cs)"

text \<open>\<^verbatim>\<open>s.split(sep)[0]\<close> for a one-character separator: the text before its first occurrence.\<close>

definition split_first :: "char \<Rightarrow> string \<Rightarrow> string" where
  "split_first sep s = takeWhile (\<lambda>c. c \<noteq> sep) s"

text \<open>\<^verbatim>\<open>'%02d' % n\<close>: at least two characters, zero-padded; the sign counts as one.\<close>

definition fmt_02d :: "int \<Rightarrow> string" where
  "fmt_02d n = (if 0 \<le> n \<and> n < 10 then CHR ''0'' # str_int n else str_int n)"

text \<open>
  Truth of a value that is \<^verbatim>\<open>None\<close> or a string, as \<^verbatim>\<open>if x:\<close> tests it: \<^verbatim>\<open>None\<close>
  and the empty string are false.
\<close>

definition truthy :: "string option \<Rightarrow> bool" where
  "truthy x = (case x of None \<Rightarrow> False | Some s \<Rightarrow> s \<noteq> [])"

text \<open>\<^verbatim>\<open>str(x)\<close> of such a value: \<^verbatim>\<open>str(None)\<close> is the text \<^verbatim>\<open>None\<close>.\<close>

definition str_opt :: "string option \<Rightarrow> string" where
  "str_opt x = (case x of None \<Rightarrow> ''None'' | Some s \<Rightarrow> s)"

subsection \<open>Time stamps\<close>

text \<open>
  \<^verbatim>\<open>datetime.fromisoformat\<close> on the form the feed uses,
  \<^verbatim>\<open>YYYY-MM-DD?HH:MM:SS\<close> with an optional offset \<^verbatim>\<open>+HH:MM\<close> or \<^verbatim>\<open>-HH:MM\<close>
  (the \<^verbatim>\<open>?\<close> is any one character). A text of this form whose fields are out of
  range raises ValueError; every other text is \<open>Unmodelled\<close> (Python accepts more
  forms, and which ones depends on its version). \<open>utcoffset\<close> is in minutes,
  \<open>None\<close> for a naive time.
\<close>

record datetime =
  year :: nat
  month :: nat
  day :: nat
  hour :: nat
  minute :: nat
  second :: nat
  utcoffset :: "int option"

definition num2 :: "char \<Rightarrow> char \<Rightarrow> nat option" where
  "num2 a b = (if is_digit a \<and> is_digit b then Some (digit_val a * 10 + digit_val b) else None)"

definition days_in_month :: "nat \<Rightarrow> nat \<Rightarrow> nat" where
  "days_in_month y m =
     (if m = 2 then (if (y mod 4 = 0 \<and> y mod 100 \<noteq> 0) \<or> y mod 400 = 0 then 29 else 28)
      else if m = 4 \<or> m = 6 \<or> m = 9 \<or> m = 11 then 30 else 31)"

fun parse_offset :: "string \<Rightarrow> error + int option" where
  "parse_offset [] = Inr None"
| "parse_offset [sg, a, b, c, d, e] =
     (case (num2 a b, num2 d e) of
        (Some hh, Some mm) \<Rightarrow>
          (if (sg = CHR ''+'' \<or> sg = CHR ''-'') \<and> c = CHR '':'' \<and> hh \<le> 23 \<and> mm \<le> 59
           then Inr (Some ((if sg = CHR ''-'' then - 1 else 1) * (int hh * 60 + int mm)))
           else Inl Unmodelled)
      | _ \<Rightarrow> Inl Unmodelled)"
| "parse_offset _ = Inl Unmodelled"

fun fromisoformat :: "string \<Rightarrow> error + datetime" where
  "fromisoformat (y1 # y2 # y3 # y4 # p # m1 # m2 # q # d1 # d2 # sep # h1 # h2 # r # n1 # n2 # s # s1 # s2 # tz) =
     (case (num2 y1 y2, num2 y3 y4, num2 m1 m2, num2 d1 d2, num2 h1 h2, num2 n1 n2, num2 s1 s2) of
        (Some ya, Some yb, Some mo, Some dd, Some hh, Some mi, Some ss) \<Rightarrow>
          (if \<not> (p = CHR ''-'' \<and> q = CHR ''-'' \<and> r = CHR '':'' \<and> s = CHR '':'') then Inl Unmodelled
           else
             (case parse_offset tz of
                Inl e \<Rightarrow> Inl e
              | Inr off \<Rightarrow>
                  (let y = ya * 100 + yb in
                   if y < 1 \<or> mo < 1 \<or> 12 < mo \<or> dd < 1 \<or> days_in_month y mo < dd
                      \<or> 23 < hh \<or> 59 < mi \<or> 59 < ss
                   then Inl ValueError
                   else Inr \<lparr>year = y, month = mo, day = dd, hour = hh, minute = mi,
                             second = ss, utcoffset = off\<rparr>)))
      | _ \<Rightarrow> Inl Unmodelled)"
| "fromisoformat _ = Inl Unmodelled"

text \<open>
  \<^verbatim>\<open>def tm_parse(tm):
      tm = tm.replace('Z', '+00:00')
      return datetime.datetime.fromisoformat(tm)\<close>
\<close>

definition tm_parse :: "string \<Rightarrow> error + datetime" where
  "tm_parse tm = fromisoformat (replace ''Z'' ''+00:00'' tm)"

text \<open>
  \<^verbatim>\<open>dt.strftime('%Y%m%d%H%M%S %z')\<close>. \<^verbatim>\<open>%z\<close> is empty for a naive time. A year below
  1000 is \<open>Unmodelled\<close>: its padding depends on the platform.
\<close>

definition pad2 :: "nat \<Rightarrow> string" where
  "pad2 n = fmt_02d (int n)"

definition strftime :: "datetime \<Rightarrow> error + string" where
  "strftime dt =
     (if year dt < 1000 then Inl Unmodelled
      else Inr (str_nat (year dt) @ pad2 (month dt) @ pad2 (day dt) @ pad2 (hour dt)
                @ pad2 (minute dt) @ pad2 (second dt) @ '' ''
                @ (case utcoffset dt of
                     None \<Rightarrow> []
                   | Some off \<Rightarrow>
                       (if off < 0 then ''-'' else ''+'')
                       @ pad2 (nat \<bar>off\<bar> div 60) @ pad2 (nat \<bar>off\<bar> mod 60))))"

subsection \<open>The XML tree\<close>

text \<open>
  An \<^verbatim>\<open>xml.etree.ElementTree.Element\<close>: tag, attributes in insertion order, text
  (\<open>None\<close> until set) and children in order.
\<close>

datatype element =
  Element (tag: string) (attrib: "(string \<times> string) list") (etext: "string option")
    (children: "element list")

definition append_child :: "element \<Rightarrow> element \<Rightarrow> element" where
  "append_child parent el = Element (tag parent) (attrib parent) (etext parent) (children parent @ [el])"

text \<open>
  \<^verbatim>\<open>def sub_el(parent, name, text=None, **kwargs):
      el = ET.SubElement(parent, name, **kwargs)
      if text:
          el.text = text
      return el\<close>
  Python appends the new element to \<open>parent\<close> in place and returns it. \<open>new_el\<close>
  is the element made; \<open>sub_el\<close> returns the parent with it as its last child.
\<close>

definition new_el :: "string \<Rightarrow> string option \<Rightarrow> (string \<times> string) list \<Rightarrow> element" where
  "new_el name txt kwargs = Element name kwargs (if truthy txt then txt else None) []"

definition sub_el :: "element \<Rightarrow> string \<Rightarrow> string option \<Rightarrow> (string \<times> string) list \<Rightarrow> element" where
  "sub_el parent name txt kwargs = append_child parent (new_el name txt kwargs)"

subsection \<open>The decoded feed\<close>

text \<open>
  The program reads the decoded JSON through dictionary lookups. The model gives the
  decoded payload the shape of the upstream contract: an object with a list
  \<^verbatim>\<open>channels\<close>; each channel with the strings \<^verbatim>\<open>channelNo\<close>, \<^verbatim>\<open>channelId\<close>,
  \<^verbatim>\<open>callSign\<close>, a \<^verbatim>\<open>thumbnail\<close> (string or null) and a list \<^verbatim>\<open>events\<close>; each
  event with the strings \<^verbatim>\<open>startTime\<close> and \<^verbatim>\<open>endTime\<close>, the lists of strings
  \<^verbatim>\<open>filter\<close> and \<^verbatim>\<open>flag\<close>, and \<^verbatim>\<open>duration\<close>, \<^verbatim>\<open>thumbnail\<close>, \<^verbatim>\<open>rating\<close> (string
  or null); its \<^verbatim>\<open>program\<close> with six fields that are a string or null. A JSON null
  is \<open>None\<close>. The key \<^verbatim>\<open>filter\<close> is the field \<open>filter_tags\<close>, and a channel's
  \<^verbatim>\<open>thumbnail\<close> is \<open>channel_thumbnail\<close>.
\<close>

record program =
  title :: "string option"
  episodeTitle :: "string option"
  shortDesc :: "string option"
  releaseYear :: "string option"
  season :: "string option"
  episode :: "string option"

record event =
  program :: program
  startTime :: string
  endTime :: string
  duration :: "string option"
  filter_tags :: "string list"
  thumbnail :: "string option"
  rating :: "string option"
  flag :: "string list"

record channel =
  channelNo :: string
  channelId :: string
  callSign :: string
  channel_thumbnail :: "string option"
  events :: "event list"

record payload =
  channels :: "channel list"

subsection \<open>Loops that may raise\<close>

text \<open>
  A \<^verbatim>\<open>for\<close> loop whose body may raise: the state is passed from one iteration to
  the next, and the first exception ends the loop.
\<close>

fun for_each :: "('s \<Rightarrow> 'a \<Rightarrow> error + 's) \<Rightarrow> 's \<Rightarrow> 'a list \<Rightarrow> error + 's" where
  "for_each body s [] = Inr s"
| "for_each body s (x # xs) =
     (case body s x of Inl e \<Rightarrow> Inl e | Inr s' \<Rightarrow> for_each body s' xs)"

subsection \<open>Channels (lines 196 to 206 of main)\<close>

text \<open>
  \<^verbatim>\<open>'I%s.%s.zap2it.com' % (c['channelNo'], c['channelId'])\<close>
\<close>

definition channel_id :: "channel \<Rightarrow> string" where
  "channel_id c = ''I'' @ channelNo c @ ''.'' @ channelId c @ ''.zap2it.com''"

text \<open>
  The body of \<^verbatim>\<open>for c_in in d['channels']\<close>: the \<^verbatim>\<open>channel\<close> element with its three
  \<^verbatim>\<open>display-name\<close> children and its \<^verbatim>\<open>icon\<close>. Python appends the element to
  \<open>out\<close> first and fills it through the reference \<open>c_out\<close>; nothing in between
  can raise, so the model appends the filled element.
\<close>

definition channel_el :: "channel \<Rightarrow> element" where
  "channel_el c_in =
     (let c_out = new_el ''channel'' None [(''id'', channel_id c_in)];
          c_out = sub_el c_out ''display-name'' (Some (channelNo c_in @ '' '' @ callSign c_in)) [];
          c_out = sub_el c_out ''display-name'' (Some (channelNo c_in)) [];
          c_out = sub_el c_out ''display-name'' (Some (callSign c_in)) [];
          channel_thumb = split_first (CHR ''?'') (replace ''//'' [] (str_opt (channel_thumbnail c_in)))
      in sub_el c_out ''icon'' None [(''src'', channel_thumb)])"

text \<open>
  \<^verbatim>\<open>if not done_channels:
      done_channels = True
      for c_in in d['channels']:
          ...\<close>
  The result is the new value of \<open>done_channels\<close> and the new \<open>out\<close>.
\<close>

definition emit_channels :: "bool \<Rightarrow> element \<Rightarrow> payload \<Rightarrow> bool \<times> element" where
  "emit_channels done_channels out d =
     (if \<not> done_channels
      then (True, foldl (\<lambda>out c_in. append_child out (channel_el c_in)) out (channels d))
      else (done_channels, out))"

subsection \<open>Programmes (lines 208 to 256 of main)\<close>

text \<open>
  The local variables \<open>event\<close>, \<open>prog_in\<close> and \<open>prog_out\<close> are bound by the body
  of the inner loop, all three in one iteration, and keep their values after it.
  \<open>cur\<close> is \<open>None\<close> while they are unbound. \<open>prog_out\<close> refers to a child of
  \<open>out\<close>; the model holds the position of that child among the children of
  \<open>out\<close>, and a change made through \<open>prog_out\<close> is an update at that position.
\<close>

record locals =
  out :: element
  cur :: "(event \<times> program \<times> nat) option"

text \<open>
  The body of \<^verbatim>\<open>for event in c['events']\<close>, lines 211 to 217. \<open>programme_el\<close> is
  the element \<^verbatim>\<open>sub_el(out, 'programme', start=..., stop=..., channel=c_id)\<close> makes: the
  attributes \<^verbatim>\<open>start\<close>, \<^verbatim>\<open>stop\<close> and \<^verbatim>\<open>channel\<close>, no text and no children. The body
  appends it to \<open>out\<close> and binds \<open>event\<close>, \<open>prog_in\<close> and \<open>prog_out\<close>.
\<close>

definition programme_el :: "string \<Rightarrow> event \<Rightarrow> error + element" where
  "programme_el c_id ev =
     (case tm_parse (startTime ev) of Inl e \<Rightarrow> Inl e | Inr tm_start \<Rightarrow>
      case tm_parse (endTime ev) of Inl e \<Rightarrow> Inl e | Inr tm_end \<Rightarrow>
      case strftime tm_start of Inl e \<Rightarrow> Inl e | Inr start \<Rightarrow>
      case strftime tm_end of Inl e \<Rightarrow> Inl e | Inr stop \<Rightarrow>
        Inr (new_el ''programme'' None [(''start'', start), (''stop'', stop), (''channel'', c_id)]))"

definition event_body :: "string \<Rightarrow> locals \<Rightarrow> event \<Rightarrow> error + locals" where
  "event_body c_id l ev =
     (let prog_in = program ev in
      case programme_el c_id ev of
        Inl e \<Rightarrow> Inl e
      | Inr el \<Rightarrow>
          Inr \<lparr>out = append_child (out l) el,
               cur = Some (ev, prog_in, length (children (out l)))\<rparr>)"

text \<open>\<^verbatim>\<open>'Movie: ' + prog_in['releaseYear']\<close>: adding \<^verbatim>\<open>None\<close> to a string raises TypeError.\<close>

definition str_add :: "string \<Rightarrow> string option \<Rightarrow> error + string" where
  "str_add s x = (case x of None \<Rightarrow> Inl TypeError | Some t \<Rightarrow> Inr (s @ t))"

text \<open>
  Lines 219 to 256, the children of a programme: given \<open>event\<close>, \<open>prog_in\<close> and
  the element \<open>prog_out\<close> refers to, the new \<open>prog_in\<close> (line 228 assigns to its
  \<^verbatim>\<open>shortDesc\<close>) and the new element. Each step is one statement of the source, in
  its order.
\<close>

definition add_title :: "program \<Rightarrow> element \<Rightarrow> element" where
  "add_title prog_in prog_out =
     (if truthy (title prog_in) then sub_el prog_out ''title'' (title prog_in) [(''lang'', ''en'')]
      else prog_out)"

definition add_sub_title :: "event \<Rightarrow> program \<Rightarrow> element \<Rightarrow> error + element" where
  "add_sub_title ev prog_in prog_out =
     (if ''filter-movie'' \<in> set (filter_tags ev) \<and> truthy (releaseYear prog_in) then
        (case str_add ''Movie: '' (releaseYear prog_in) of
           Inl e \<Rightarrow> Inl e
         | Inr t \<Rightarrow> Inr (sub_el prog_out ''sub-title'' (Some t) [(''lang'', ''en'')]))
      else if truthy (episodeTitle prog_in) then
        Inr (sub_el prog_out ''sub-title'' (episodeTitle prog_in) [(''lang'', ''en'')])
      else Inr prog_out)"

definition set_desc :: "program \<Rightarrow> program" where
  "set_desc prog_in =
     (if shortDesc prog_in = None then prog_in\<lparr>shortDesc := Some ''Unavailable''\<rparr> else prog_in)"

definition add_desc :: "program \<Rightarrow> element \<Rightarrow> element" where
  "add_desc prog_in prog_out = sub_el prog_out ''desc'' (shortDesc prog_in) [(''lang'', ''en'')]"

definition add_length :: "event \<Rightarrow> element \<Rightarrow> element" where
  "add_length ev prog_out = sub_el prog_out ''length'' (duration ev) [(''units'', ''minutes'')]"

definition add_filters :: "event \<Rightarrow> element \<Rightarrow> element" where
  "add_filters ev prog_out =
     foldl (\<lambda>po f. sub_el (sub_el po ''category'' (Some (replace ''filter-'' [] f)) [(''lang'', ''en'')])
                      ''genre'' (Some (drop 7 f)) [(''lang'', ''en'')])
       prog_out (filter_tags ev)"

definition add_icon :: "event \<Rightarrow> element \<Rightarrow> element" where
  "add_icon ev prog_out =
     (case thumbnail ev of
        None \<Rightarrow> prog_out
      | Some t \<Rightarrow>
          sub_el prog_out ''icon'' None
            [(''src'', ''https://zap2it.tmsimg.com/assets/'' @ t @ ''.jpg'')])"

definition add_rating :: "event \<Rightarrow> element \<Rightarrow> element" where
  "add_rating ev prog_out =
     (if truthy (rating ev)
      then append_child prog_out (sub_el (Element ''rating'' [] None []) ''value'' (rating ev) [])
      else prog_out)"

definition add_episode_num :: "program \<Rightarrow> element \<Rightarrow> error + element" where
  \<open>add_episode_num prog_in prog_out =
     (if truthy (season prog_in) \<and> truthy (episode prog_in) then
        (case py_int (str_opt (season prog_in)) of Inl e \<Rightarrow> Inl e | Inr s_ \<Rightarrow>
         case py_int (str_opt (episode prog_in)) of Inl e \<Rightarrow> Inl e | Inr e_ \<Rightarrow>
           Inr (sub_el
                 (sub_el
                   (sub_el prog_out ''episode-num''
                      (Some (''S'' @ fmt_02d s_ @ ''E'' @ fmt_02d e_)) [(''system'', ''common'')])
                   ''episode-num''
                   (Some (str_int (s_ - 1) @ ''.'' @ str_int (e_ - 1) @ ''.'')) [(''system'', ''xmltv_ns'')])
                 ''episode-num''
                 (Some (''S'' @ fmt_02d s_ @ ''E'' @ fmt_02d e_)) [(''system'', ''SxxExx">S'')]))
      else Inr prog_out)\<close>

definition add_new :: "event \<Rightarrow> element \<Rightarrow> element" where
  "add_new ev prog_out =
     (if ''New'' \<in> set (flag ev) \<and> ''live'' \<notin> set (flag ev) then sub_el prog_out ''new'' None []
      else prog_out)"

definition details :: "event \<Rightarrow> program \<Rightarrow> element \<Rightarrow> error + program \<times> element" where
  "details ev prog_in prog_out =
     (case add_sub_title ev prog_in (add_title prog_in prog_out) of
        Inl e \<Rightarrow> Inl e
      | Inr po \<Rightarrow>
          (let prog_in = set_desc prog_in;
               po = add_rating ev (add_icon ev (add_filters ev (add_length ev (add_desc prog_in po))))
           in case add_episode_num prog_in po of
                Inl e \<Rightarrow> Inl e
              | Inr po \<Rightarrow> Inr (prog_in, add_new ev po)))"

definition set_child :: "element \<Rightarrow> nat \<Rightarrow> element \<Rightarrow> element" where
  "set_child parent i el = Element (tag parent) (attrib parent) (etext parent) ((children parent)[i := el])"

text \<open>
  The body of \<^verbatim>\<open>for c in d['channels']\<close>, lines 209 to 256: the inner loop over the
  channel's events, then, once, lines 219 to 256 on whatever \<open>event\<close>, \<open>prog_in\<close>
  and \<open>prog_out\<close> are bound to. Reading \<open>prog_in\<close> while it is unbound (line 219)
  raises UnboundLocalError.
\<close>

definition channel_body :: "locals \<Rightarrow> channel \<Rightarrow> error + locals" where
  "channel_body l c =
     (let c_id = channel_id c in
      case for_each (event_body c_id) l (events c) of
        Inl e \<Rightarrow> Inl e
      | Inr l1 \<Rightarrow>
          (case cur l1 of
             None \<Rightarrow> Inl UnboundLocalError
           | Some (ev, prog_in, i) \<Rightarrow>
               (case details ev prog_in (children (out l1) ! i) of
                  Inl e \<Rightarrow> Inl e
                | Inr (prog_in', prog_out') \<Rightarrow>
                    Inr \<lparr>out = set_child (out l1) i prog_out', cur = Some (ev, prog_in', i)\<rparr>)))"

definition emit_programmes :: "locals \<Rightarrow> payload \<Rightarrow> error + locals" where
  "emit_programmes l d = for_each channel_body l (channels d)"

subsection \<open>Decoding JSON\<close>

text \<open>
  \<^verbatim>\<open>json.loads\<close> of bytes, for a text of the ASCII bytes 1 to 127, in two passes over
  it, each a left-to-right scan: the first cuts it into tokens, the second builds the
  value with a stack of the arrays and objects that are still open. \<open>Unmodelled\<close>
  are: a text with a byte 0 or a byte above 127 (Python picks the encoding from the first
  bytes, skips a byte-order mark and refuses invalid UTF-8), a bare word that starts like
  a number but is not an integer as JSON writes it in at most 4300 digits (a fraction, an
  exponent, a leading zero, a longer integer), \<^verbatim>\<open>NaN\<close>, \<^verbatim>\<open>Infinity\<close> and a \<^verbatim>\<open>\u\<close>
  escape. Any other text that is not JSON raises JSONDecodeError.
\<close>

datatype json =
    JNull
  | JBool bool
  | JInt int
  | JStr string
  | JArr "json list"
  | JObj "(string \<times> json) list"

datatype token = TLBrace | TRBrace | TLBrack | TRBrack | TColon | TComma | TStr string | TWord string

text \<open>
  The scanner is idle, inside a string, after a backslash in a string, or inside a bare
  word (a number or a literal); \<open>LStr\<close>, \<open>LEsc\<close> and \<open>LWord\<close> hold the characters
  read so far, last first.
\<close>

datatype lstate = LIdle | LStr string | LEsc string | LWord string

definition is_ws :: "char \<Rightarrow> bool" where
  "is_ws c = (c = CHR '' '' \<or> c = CHR 0x09 \<or> c = CHR 0x0A \<or> c = CHR 0x0D)"

definition is_word :: "char \<Rightarrow> bool" where
  "is_word c =
     (let n = (of_char c :: nat)
      in (48 \<le> n \<and> n \<le> 57) \<or> (65 \<le> n \<and> n \<le> 90) \<or> (97 \<le> n \<and> n \<le> 122)
         \<or> c = CHR ''+'' \<or> c = CHR ''-'' \<or> c = CHR ''.'')"

definition punct :: "char \<Rightarrow> token option" where
  "punct c =
     (if c = CHR ''{'' then Some TLBrace else if c = CHR ''}'' then Some TRBrace
      else if c = CHR ''['' then Some TLBrack else if c = CHR '']'' then Some TRBrack
      else if c = CHR '':'' then Some TColon else if c = CHR '','' then Some TComma
      else None)"

definition unescape :: "char \<Rightarrow> error + char" where
  "unescape c =
     (if c = CHR 0x22 \<or> c = CHR 0x5C \<or> c = CHR ''/'' then Inr c
      else if c = CHR ''b'' then Inr (CHR 0x08)
      else if c = CHR ''f'' then Inr (CHR 0x0C)
      else if c = CHR ''n'' then Inr (CHR 0x0A)
      else if c = CHR ''r'' then Inr (CHR 0x0D)
      else if c = CHR ''t'' then Inr (CHR 0x09)
      else if c = CHR ''u'' then Inl Unmodelled
      else Inl JSONDecodeError)"

text \<open>One character outside a string; \<open>acc\<close> holds the tokens so far, last first.\<close>

definition idle_step :: "token list \<Rightarrow> char \<Rightarrow> error + lstate \<times> token list" where
  "idle_step acc c =
     (if is_ws c then Inr (LIdle, acc)
      else if c = CHR 0x22 then Inr (LStr [], acc)
      else if is_word c then Inr (LWord [c], acc)
      else (case punct c of Some t \<Rightarrow> Inr (LIdle, t # acc) | None \<Rightarrow> Inl JSONDecodeError))"

fun lex_step :: "lstate \<times> token list \<Rightarrow> char \<Rightarrow> error + lstate \<times> token list" where
  "lex_step (LIdle, acc) c = idle_step acc c"
| "lex_step (LWord w, acc) c =
     (if is_word c then Inr (LWord (c # w), acc) else idle_step (TWord (rev w) # acc) c)"
| "lex_step (LStr s, acc) c =
     (if c = CHR 0x22 then Inr (LIdle, TStr (rev s) # acc)
      else if c = CHR 0x5C then Inr (LEsc s, acc)
      else if (of_char c :: nat) < 32 then Inl JSONDecodeError
      else Inr (LStr (c # s), acc))"
| "lex_step (LEsc s, acc) c =
     (case unescape c of Inl e \<Rightarrow> Inl e | Inr c' \<Rightarrow> Inr (LStr (c' # s), acc))"

fun lex_end :: "lstate \<times> token list \<Rightarrow> error + token list" where
  "lex_end (LIdle, acc) = Inr (rev acc)"
| "lex_end (LWord w, acc) = Inr (rev (TWord (rev w) # acc))"
| "lex_end (LStr s, acc) = Inl JSONDecodeError"
| "lex_end (LEsc s, acc) = Inl JSONDecodeError"

definition tokens :: "string \<Rightarrow> error + token list" where
  "tokens s = (case for_each lex_step (LIdle, []) s of Inl e \<Rightarrow> Inl e | Inr st \<Rightarrow> lex_end st)"

text \<open>
  The value of a bare word: a literal, or an integer written as JSON allows (no leading
  zero, no plus sign) in at most 4300 digits, the most that \<^verbatim>\<open>int\<close> reads in newer
  versions of Python.
\<close>

definition json_nat :: "string \<Rightarrow> nat option" where
  "json_nat w =
     (case w of
        [] \<Rightarrow> None
      | c # cs \<Rightarrow>
          if list_all is_digit w \<and> length w \<le> 4300 \<and> \<not> (c = CHR ''0'' \<and> cs \<noteq> [])
          then Some (foldl (\<lambda>a d. a * 10 + digit_val d) 0 w)
          else None)"

definition word_value :: "string \<Rightarrow> error + json" where
  "word_value w =
     (if w = ''null'' then Inr JNull
      else if w = ''true'' then Inr (JBool True)
      else if w = ''false'' then Inr (JBool False)
      else
        (case w of
           [] \<Rightarrow> Inl JSONDecodeError
         | c # cs \<Rightarrow>
             (case (if c = CHR ''-'' then map_option (\<lambda>n. - int n) (json_nat cs)
                    else map_option int (json_nat w)) of
                Some i \<Rightarrow> Inr (JInt i)
              | None \<Rightarrow>
                  if is_digit c \<or> c = CHR ''-'' \<or> w = ''NaN'' \<or> w = ''Infinity''
                  then Inl Unmodelled else Inl JSONDecodeError)))"

text \<open>
  The open containers, innermost first: an array with its elements so far, an object
  waiting for a key, an object holding a key and waiting for its value. Elements and
  members are held last first.
\<close>

datatype frame = FArr "json list" | FObj "(string \<times> json) list" | FKey "(string \<times> json) list" string

datatype pmode = PValue | PArrFirst | PObjFirst | PKey | PColon | PAfter | PDone json

text \<open>A value is complete: it is the document, an element, or the value of the pending key.\<close>

fun complete :: "json \<Rightarrow> frame list \<Rightarrow> error + pmode \<times> frame list" where
  "complete v [] = Inr (PDone v, [])"
| "complete v (FArr xs # st) = Inr (PAfter, FArr (v # xs) # st)"
| "complete v (FKey kvs k # st) = Inr (PAfter, FObj ((k, v) # kvs) # st)"
| "complete v (FObj kvs # st) = Inl JSONDecodeError"

definition start_value :: "frame list \<Rightarrow> token \<Rightarrow> error + pmode \<times> frame list" where
  "start_value st t =
     (case t of
        TLBrack \<Rightarrow> Inr (PArrFirst, FArr [] # st)
      | TLBrace \<Rightarrow> Inr (PObjFirst, FObj [] # st)
      | TStr s \<Rightarrow> complete (JStr s) st
      | TWord w \<Rightarrow> (case word_value w of Inl e \<Rightarrow> Inl e | Inr v \<Rightarrow> complete v st)
      | _ \<Rightarrow> Inl JSONDecodeError)"

fun parse_step :: "pmode \<times> frame list \<Rightarrow> token \<Rightarrow> error + pmode \<times> frame list" where
  "parse_step (PValue, st) t = start_value st t"
| "parse_step (PArrFirst, FArr xs # st) TRBrack = complete (JArr (rev xs)) st"
| "parse_step (PArrFirst, st) t = start_value st t"
| "parse_step (PObjFirst, FObj kvs # st) TRBrace = complete (JObj (rev kvs)) st"
| "parse_step (PObjFirst, FObj kvs # st) (TStr k) = Inr (PColon, FKey kvs k # st)"
| "parse_step (PKey, FObj kvs # st) (TStr k) = Inr (PColon, FKey kvs k # st)"
| "parse_step (PColon, st) TColon = Inr (PValue, st)"
| "parse_step (PAfter, FArr xs # st) TComma = Inr (PValue, FArr xs # st)"
| "parse_step (PAfter, FArr xs # st) TRBrack = complete (JArr (rev xs)) st"
| "parse_step (PAfter, FObj kvs # st) TComma = Inr (PKey, FObj kvs # st)"
| "parse_step (PAfter, FObj kvs # st) TRBrace = complete (JObj (rev kvs)) st"
| "parse_step _ _ = Inl JSONDecodeError"

definition is_ascii :: "char \<Rightarrow> bool" where
  "is_ascii c = (let n = (of_char c :: nat) in 1 \<le> n \<and> n \<le> 127)"

definition json_loads :: "string \<Rightarrow> error + json" where
  "json_loads s =
     (if \<not> list_all is_ascii s then Inl Unmodelled
      else
        (case tokens s of
           Inl e \<Rightarrow> Inl e
         | Inr ts \<Rightarrow>
             (case for_each parse_step (PValue, []) ts of
                Inl e \<Rightarrow> Inl e
              | Inr (PDone v, _) \<Rightarrow> Inr v
              | Inr _ \<Rightarrow> Inl JSONDecodeError)))"

subsection \<open>From the decoded JSON to the feed\<close>

text \<open>
  The lookups \<^verbatim>\<open>d['channels']\<close>, \<^verbatim>\<open>c['events']\<close>, \<^verbatim>\<open>event['program']\<close> and so on,
  done once for the whole payload. A duplicate key holds its last value, as in a Python
  dictionary. A payload that is not an object raises TypeError and one without
  \<^verbatim>\<open>channels\<close> raises KeyError, as line 198 does; every other departure from the shape
  above is \<open>Unmodelled\<close> (Python raises where it first needs the value, which may be
  never).
\<close>

definition bind :: "error + 'a \<Rightarrow> ('a \<Rightarrow> error + 'b) \<Rightarrow> error + 'b" where
  "bind m f = (case m of Inl e \<Rightarrow> Inl e | Inr x \<Rightarrow> f x)"

fun map_err :: "('a \<Rightarrow> error + 'b) \<Rightarrow> 'a list \<Rightarrow> error + 'b list" where
  "map_err f [] = Inr []"
| "map_err f (x # xs) = bind (f x) (\<lambda>y. bind (map_err f xs) (\<lambda>ys. Inr (y # ys)))"

fun member :: "json \<Rightarrow> string \<Rightarrow> json option" where
  "member (JObj kvs) k = map_of (rev kvs) k"
| "member _ k = None"

fun as_str :: "json option \<Rightarrow> error + string" where
  "as_str (Some (JStr s)) = Inr s"
| "as_str _ = Inl Unmodelled"

fun as_str_opt :: "json option \<Rightarrow> error + string option" where
  "as_str_opt (Some (JStr s)) = Inr (Some s)"
| "as_str_opt (Some JNull) = Inr None"
| "as_str_opt _ = Inl Unmodelled"

fun as_list :: "json option \<Rightarrow> error + json list" where
  "as_list (Some (JArr xs)) = Inr xs"
| "as_list _ = Inl Unmodelled"

definition as_strs :: "json option \<Rightarrow> error + string list" where
  "as_strs j = bind (as_list j) (map_err (\<lambda>x. as_str (Some x)))"

definition program_of :: "json \<Rightarrow> error + program" where
  "program_of j =
     bind (as_str_opt (member j ''title'')) (\<lambda>t.
     bind (as_str_opt (member j ''episodeTitle'')) (\<lambda>et.
     bind (as_str_opt (member j ''shortDesc'')) (\<lambda>sd.
     bind (as_str_opt (member j ''releaseYear'')) (\<lambda>ry.
     bind (as_str_opt (member j ''season'')) (\<lambda>se.
     bind (as_str_opt (member j ''episode'')) (\<lambda>ep.
       Inr \<lparr>title = t, episodeTitle = et, shortDesc = sd, releaseYear = ry,
            season = se, episode = ep\<rparr>))))))"

definition event_of :: "json \<Rightarrow> error + event" where
  "event_of j =
     bind (case member j ''program'' of None \<Rightarrow> Inl Unmodelled | Some p \<Rightarrow> program_of p) (\<lambda>p.
     bind (as_str (member j ''startTime'')) (\<lambda>st.
     bind (as_str (member j ''endTime'')) (\<lambda>en.
     bind (as_str_opt (member j ''duration'')) (\<lambda>du.
     bind (as_strs (member j ''filter'')) (\<lambda>fi.
     bind (as_str_opt (member j ''thumbnail'')) (\<lambda>th.
     bind (as_str_opt (member j ''rating'')) (\<lambda>ra.
     bind (as_strs (member j ''flag'')) (\<lambda>fl.
       Inr \<lparr>program = p, startTime = st, endTime = en, duration = du, filter_tags = fi,
            thumbnail = th, rating = ra, flag = fl\<rparr>))))))))"

definition channel_of :: "json \<Rightarrow> error + channel" where
  "channel_of j =
     bind (as_str (member j ''channelNo'')) (\<lambda>no.
     bind (as_str (member j ''channelId'')) (\<lambda>ci.
     bind (as_str (member j ''callSign'')) (\<lambda>cs.
     bind (as_str_opt (member j ''thumbnail'')) (\<lambda>th.
     bind (bind (as_list (member j ''events'')) (map_err event_of)) (\<lambda>es.
       Inr \<lparr>channelNo = no, channelId = ci, callSign = cs, channel_thumbnail = th,
            events = es\<rparr>)))))"

fun payload_of :: "json \<Rightarrow> error + payload" where
  "payload_of (JObj kvs) =
     (case member (JObj kvs) ''channels'' of
        None \<Rightarrow> Inl KeyError
      | Some cs \<Rightarrow> bind (bind (as_list (Some cs)) (map_err channel_of)) (\<lambda>cs. Inr \<lparr>channels = cs\<rparr>))"
| "payload_of _ = Inl TypeError"

subsection \<open>The world: cache directory, clock, network\<close>

text \<open>
  \<open>cache\<close> is the listing of the cache directory of the postal code (line 145), an
  entry per name, in the order \<^verbatim>\<open>glob('*')\<close> yields them; an entry is a regular file
  with its bytes or a directory. \<open>now\<close> is what \<^verbatim>\<open>time.mktime(time.localtime())\<close>
  returns, a whole number of seconds. \<open>net n url\<close> is the answer of the server to the
  \<open>n\<close>-th request of the run when it asks for \<open>url\<close>. \<open>requests\<close> and \<open>sleeps\<close>
  record the requests made and the delays slept, in order.
\<close>

datatype node = File string | Dir

datatype response = Body string | HTTPFail nat | ConnFail

record world =
  cache :: "(string \<times> node) list"
  now :: int
  net :: "nat \<Rightarrow> string \<Rightarrow> response"
  requests :: "string list"
  sleeps :: "int list"

text \<open>The bytes written in place of the answer to a request that failed with status 400 (lines 97 to 101).\<close>

definition placeholder :: string where
  \<open>placeholder = ''{"note": "Got a 400 error at this time, skipping.","channels": []}''\<close>

text \<open>
  \<^verbatim>\<open>def get_cached(cache_dir, cache_key, delay, url):
      cache_path = cache_dir.joinpath(cache_key)
      if cache_path.is_file():
          with open(cache_path, 'rb') as f:
              return f.read()
      else:
          try:
              resp = urllib.request.urlopen(url)
              result = resp.read()
          except urllib.error.HTTPError as e:
              if e.code == 400:
                  result = (b'{' b'"note": "Got a 400 error at this time, skipping.",'
                            b'"channels": []' b'}')
              else:
                  raise
          with open(cache_path, 'wb') as f:
              f.write(result)
          time.sleep(delay)
          return result\<close>
  Opening a directory for writing raises OSError, and \<^verbatim>\<open>time.sleep\<close> of a negative
  delay raises ValueError. A failure of the request that is not an HTTP status (no
  connection) is URLError; the \<^verbatim>\<open>except\<close> clause does not catch it.
\<close>

definition write_and_sleep :: "string \<Rightarrow> int \<Rightarrow> string \<Rightarrow> world \<Rightarrow> (error + string) \<times> world" where
  "write_and_sleep cache_key delay_s result w =
     (case map_of (cache w) cache_key of
        Some Dir \<Rightarrow> (Inl OSError, w)
      | _ \<Rightarrow>
          (let w1 = w\<lparr>cache := filter (\<lambda>(n, nd). n \<noteq> cache_key) (cache w) @ [(cache_key, File result)]\<rparr>
           in if delay_s < 0 then (Inl ValueError, w1)
              else (Inr result, w1\<lparr>sleeps := sleeps w1 @ [delay_s]\<rparr>)))"

definition get_cached :: "string \<Rightarrow> int \<Rightarrow> string \<Rightarrow> world \<Rightarrow> (error + string) \<times> world" where
  "get_cached cache_key delay_s url w =
     (case map_of (cache w) cache_key of
        Some (File bytes) \<Rightarrow> (Inr bytes, w)
      | _ \<Rightarrow>
          (let w1 = w\<lparr>requests := requests w @ [url]\<rparr>
           in case net w (length (requests w)) url of
                Body result \<Rightarrow> write_and_sleep cache_key delay_s result w1
              | HTTPFail code \<Rightarrow>
                  if code = 400 then write_and_sleep cache_key delay_s placeholder w1
                  else (Inl (HTTPError code), w1)
              | ConnFail \<Rightarrow> (Inl URLError, w1)))"

text \<open>
  \<^verbatim>\<open>def remove_stale_cache(cache_dir, zap_time):
      for p in cache_dir.glob('*'):
          try:
              t = int(p.name)
              if t >= zap_time:
                  continue
          except:
              pass
          p.unlink()\<close>
  \<open>kept\<close> is the \<^verbatim>\<open>try\<close> statement: true when the name is an integer at or above
  \<open>zap_time\<close> and the loop goes on to the next entry; false when it is a smaller
  integer, or when \<^verbatim>\<open>int\<close> raises, which the bare \<^verbatim>\<open>except\<close> swallows. In both of
  the latter cases control reaches \<^verbatim>\<open>p.unlink()\<close>. \<open>remove_loop\<close> runs over the
  listing taken when the loop starts; its last argument is the directory as it is now.
  \<^verbatim>\<open>unlink\<close> of a directory raises OSError.
\<close>

definition kept :: "int \<Rightarrow> string \<Rightarrow> bool" where
  "kept zap_time name = (case py_int name of Inr t \<Rightarrow> t \<ge> zap_time | Inl e \<Rightarrow> False)"

fun remove_loop :: "int \<Rightarrow> (string \<times> node) list \<Rightarrow> (string \<times> node) list
    \<Rightarrow> (error + unit) \<times> (string \<times> node) list" where
  "remove_loop zap_time [] dir = (Inr (), dir)"
| "remove_loop zap_time ((name, nd) # ps) dir =
     (if kept zap_time name then remove_loop zap_time ps dir
      else
        (case nd of
           Dir \<Rightarrow> (Inl OSError, dir)
         | File bytes \<Rightarrow> remove_loop zap_time ps (filter (\<lambda>(n, nd). n \<noteq> name) dir)))"

definition remove_stale_cache :: "int \<Rightarrow> world \<Rightarrow> (error + unit) \<times> world" where
  "remove_stale_cache zap_time w =
     (case remove_loop zap_time (cache w) (cache w) of (r, dir) \<Rightarrow> (r, w\<lparr>cache := dir\<rparr>))"

subsection \<open>The configuration and the request\<close>

text \<open>The namespace \<^verbatim>\<open>get_args\<close> returns, a field per \<^verbatim>\<open>dest\<close>.\<close>

record args =
  zap_aid :: string
  zap_country :: string
  delay :: int
  zap_device :: string
  zap_headendId :: string
  zap_isOverride :: bool
  zap_languagecode :: string
  zap_pref :: string
  zap_timespan :: int
  zap_timezone :: string
  zap_userId :: string
  zap_postalCode :: string
  output_file :: string

text \<open>
  \<^verbatim>\<open>urllib.parse.urlencode\<close> of a dictionary whose values are already texts: each key
  and value through \<^verbatim>\<open>quote_plus\<close> (letters, digits and \<^verbatim>\<open>_.-~\<close> stay, a space
  becomes \<^verbatim>\<open>+\<close>, every other byte becomes \<^verbatim>\<open>%XX\<close>), joined by \<^verbatim>\<open>=\<close> and \<^verbatim>\<open>&\<close>.
\<close>

definition hex_char :: "nat \<Rightarrow> char" where
  "hex_char d = ''0123456789ABCDEF'' ! d"

definition quote_char :: "char \<Rightarrow> string" where
  "quote_char c =
     (let n = (of_char c :: nat)
      in if (48 \<le> n \<and> n \<le> 57) \<or> (65 \<le> n \<and> n \<le> 90) \<or> (97 \<le> n \<and> n \<le> 122)
            \<or> c = CHR ''_'' \<or> c = CHR ''.'' \<or> c = CHR ''-'' \<or> c = CHR ''~'' then [c]
         else if c = CHR '' '' then ''+''
         else [CHR ''%'', hex_char (n div 16), hex_char (n mod 16)])"

definition quote_plus :: "string \<Rightarrow> string" where
  "quote_plus s = concat (map quote_char s)"

fun join_amp :: "string list \<Rightarrow> string" where
  "join_amp [] = []"
| "join_amp [x] = x"
| "join_amp (x # y # ys) = x @ ''&'' @ join_amp (y # ys)"

definition urlencode :: "(string \<times> string) list \<Rightarrow> string" where
  "urlencode query = join_amp (map (\<lambda>(k, v). quote_plus k @ ''='' @ quote_plus v) query)"

text \<open>
  The dictionary \<open>parameters\<close> of lines 172 to 188, each value as \<^verbatim>\<open>str\<close> gives it.
\<close>

definition parameters_of :: "args \<Rightarrow> int \<Rightarrow> (string \<times> string) list" where
  "parameters_of a i_time =
     [(''aid'', zap_aid a),
      (''country'', zap_country a),
      (''device'', zap_device a),
      (''headendId'', zap_headendId a),
      (''isOverride'', ''true''),
      (''languagecode'', zap_languagecode a),
      (''pref'', ''m,p''),
      (''timespan'', str_int (zap_timespan a)),
      (''timezone'', zap_timezone a),
      (''userId'', zap_userId a),
      (''postalCode'', zap_postalCode a),
      (''lineupId'', zap_country a @ ''-'' @ zap_device a @ ''-DEFAULT''),
      (''time'', str_int i_time),
      (''Activity_ID'', ''1''),
      (''FromPage'', ''TV%20Guide'')]"

subsection \<open>The planner (lines 151 to 168 of main)\<close>

text \<open>
  \<^verbatim>\<open>zap_time = time.mktime(time.localtime())
  zap_time_window = args.zap_timespan * 3600
  zap_time = int(zap_time - (zap_time % zap_time_window))\<close>
  The clock value is a float that holds a whole number of seconds, and so are the
  remainder and the difference (all far below \<open>2^53\<close>), so the model computes in
  \<^typ>\<open>int\<close>. Python's \<^verbatim>\<open>%\<close> takes the sign of the divisor, as \<open>mod\<close> does, and
  raises ZeroDivisionError for a zero divisor.
\<close>

definition first_zap_time :: "int \<Rightarrow> int \<Rightarrow> error + int" where
  "first_zap_time t zap_time_window =
     (if zap_time_window = 0 then Inl ZeroDivisionError else Inr (t - t mod zap_time_window))"

text \<open>
  \<^verbatim>\<open>int(7 * 24 / args.zap_timespan)\<close>: the quotient, cut towards zero. The divisor is
  not zero where the program gets here.
\<close>

definition trunc_div :: "int \<Rightarrow> int \<Rightarrow> int" where
  "trunc_div a b = (if (a < 0) = (b < 0) then \<bar>a\<bar> div \<bar>b\<bar> else - (\<bar>a\<bar> div \<bar>b\<bar>))"

definition n_buckets :: "int \<Rightarrow> nat" where
  "n_buckets timespan = nat (trunc_div (7 * 24) timespan)"

text \<open>
  \<^verbatim>\<open>for i in range(int(7 * 24 / args.zap_timespan)):
      i_time = zap_time + (i * zap_time_window)
      parameters = { ... 'time': i_time, ... }\<close>
  The body only assigns to \<open>i_time\<close> and \<open>parameters\<close>. \<open>i_times\<close> lists the
  values \<open>i_time\<close> takes, one per iteration; \<open>plan_loop\<close> is the loop, and its
  result the two variables after it: \<open>None\<close> when the body never ran and they are
  unbound.
\<close>

definition i_times :: "int \<Rightarrow> int \<Rightarrow> int \<Rightarrow> int list" where
  "i_times timespan zap_time zap_time_window =
     map (\<lambda>i. zap_time + int i * zap_time_window) [0..<n_buckets timespan]"

definition plan_loop :: "args \<Rightarrow> int \<Rightarrow> int \<Rightarrow> (int \<times> (string \<times> string) list) option" where
  "plan_loop a zap_time zap_time_window =
     foldl (\<lambda>vars i_time. Some (i_time, parameters_of a i_time)) None
       (i_times (zap_timespan a) zap_time zap_time_window)"

subsection \<open>main\<close>

text \<open>The root element of lines 160 to 164.\<close>

definition tv_root :: element where
  "tv_root =
     Element ''tv''
       [(''source-info-url'', ''http://tvlistings.zap2it.com/''),
        (''source-info-name'', ''zap2it.com''),
        (''generator-info-name'', ''zap2xml.py''),
        (''generator-info-url'', ''github.com/deathbybandaid/zap2xml-py'')]
       None []"

text \<open>
  \<open>main\<close> from line 149 on, statement by statement: the cache directory exists (lines
  141 to 147 make it), and the result is the tree that lines 258 to 261 write to the
  output file before the process exits with status 0. The loop of line 167 ends at line
  188: the request, the decoding and the two blocks that fill \<open>out\<close> come after it and
  run once, with the \<open>i_time\<close> and \<open>parameters\<close> of the last iteration. Reading
  \<open>parameters\<close> while it is unbound (line 191) raises UnboundLocalError.
\<close>

definition main :: "args \<Rightarrow> world \<Rightarrow> (error + element) \<times> world" where
  "main a w =
     (let done_channels = False;
          zap_time_window = zap_timespan a * 3600
      in case first_zap_time (now w) zap_time_window of
           Inl e \<Rightarrow> (Inl e, w)
         | Inr zap_time \<Rightarrow>
      (case remove_stale_cache zap_time w of
           (Inl e, w1) \<Rightarrow> (Inl e, w1)
         | (Inr u, w1) \<Rightarrow>
      (let out = tv_root
       in case plan_loop a zap_time zap_time_window of
            None \<Rightarrow> (Inl UnboundLocalError, w1)
          | Some (i_time, parameters) \<Rightarrow>
      (let url = ''https://tvlistings.zap2it.com/api/grid?'' @ urlencode parameters
       in case get_cached (str_int i_time) (delay a) url w1 of
            (Inl e, w2) \<Rightarrow> (Inl e, w2)
          | (Inr result, w2) \<Rightarrow>
      (case bind (json_loads result) payload_of of
            Inl e \<Rightarrow> (Inl e, w2)
          | Inr d \<Rightarrow>
      (case emit_channels done_channels out d of
            (done_channels, out) \<Rightarrow>
      (case emit_programmes \<lparr>out = out, cur = None\<rparr> d of
            Inl e \<Rightarrow> (Inl e, w2)
          | Inr l \<Rightarrow> (Inr (locals.out l), w2))))))))"

section \<open>Example inputs\<close>

text \<open>A server that is never reached, for the examples that make no request.\<close>

definition offline :: "nat \<Rightarrow> string \<Rightarrow> response" where
  "offline n url = ConnFail"

text \<open>A cache directory with three bucket files and one file of another kind.\<close>

definition eviction_example :: world where
  "eviction_example =
     \<lparr>cache = [(''100'', File ''a''), (''200'', File ''b''), (''300'', File ''c''),
               (''notes.txt'', File ''d'')],
      now = 200, net = offline, requests = [], sleeps = []\<rparr>"



text \<open>A channel without events.\<close>

definition example_channel :: channel where
  "example_channel =
     \<lparr>channelNo = ''2.1'', channelId = ''100'', callSign = ''KAAA'', channel_thumbnail = None,
      events = []\<rparr>"

text \<open>
  An event of the feed and its program, and the \<^verbatim>\<open>programme\<close> element the inner loop
  makes for it on channel 2.1. The examples below vary single fields.
\<close>

definition base_program :: program where
  "base_program =
     \<lparr>title = Some ''News'', episodeTitle = None, shortDesc = Some ''Headlines.'',
      releaseYear = None, season = None, episode = None\<rparr>"

definition base_event :: event where
  "base_event =
     \<lparr>program = base_program, startTime = ''2020-06-28T12:00:00Z'',
      endTime = ''2020-06-28T13:00:00Z'', duration = Some ''60'', filter_tags = [],
      thumbnail = None, rating = None, flag = []\<rparr>"

definition bare :: element where
  "bare =
     Element ''programme''
       [(''start'', ''20200628120000 +0000''), (''stop'', ''20200628130000 +0000''),
        (''channel'', ''I2.1.100.zap2it.com'')]
       None []"

text \<open>A channel with two events; the program of the second has no short description.\<close>

definition desc_channel :: channel where
  "desc_channel =
     \<lparr>channelNo = ''2.1'', channelId = ''100'', callSign = ''KAAA'', channel_thumbnail = None,
      events = [base_event, base_event\<lparr>program := base_program\<lparr>shortDesc := None\<rparr>\<rparr>]\<rparr>"

text \<open>A channel with two events, both of season 1, episode 5.\<close>

definition episode_channel :: channel where
  "episode_channel =
     \<lparr>channelNo = ''2.1'', channelId = ''100'', callSign = ''KAAA'', channel_thumbnail = None,
      events = [base_event\<lparr>program := base_program\<lparr>season := Some ''1'', episode := Some ''5''\<rparr>\<rparr>,
                base_event\<lparr>program := base_program\<lparr>season := Some ''1'', episode := Some ''5''\<rparr>\<rparr>]\<rparr>"

text \<open>
  A channel with two events, the first flagged \<^verbatim>\<open>New\<close>, the second \<^verbatim>\<open>New\<close> and
  \<^verbatim>\<open>live\<close>; and a channel with one event flagged \<^verbatim>\<open>New\<close>.
\<close>

definition new_channel :: channel where
  "new_channel =
     \<lparr>channelNo = ''2.1'', channelId = ''100'', callSign = ''KAAA'', channel_thumbnail = None,
      events = [base_event\<lparr>flag := [''New'']\<rparr>, base_event\<lparr>flag := [''New'', ''live'']\<rparr>]\<rparr>"

definition new_only_channel :: channel where
  "new_only_channel =
     \<lparr>channelNo = ''2.1'', channelId = ''100'', callSign = ''KAAA'', channel_thumbnail = None,
      events = [base_event\<lparr>flag := [''New'']\<rparr>]\<rparr>"



text \<open>A channel with one event followed by a channel without events.\<close>

definition one_event_channel :: channel where
  "one_event_channel =
     \<lparr>channelNo = ''2.1'', channelId = ''100'', callSign = ''KAAA'', channel_thumbnail = None,
      events = [base_event]\<rparr>"

text \<open>
  A run with a span of 84 hours plans two buckets. At the clock value 1593345700 they are
  1593345600 and 1593648000. Bucket A holds two channels with one event each, bucket B
  the same two channels with one other event each; both are in the cache.
\<close>

definition example_args :: args where
  "example_args =
     \<lparr>zap_aid = ''gapzap'', zap_country = ''USA'', delay = 5, zap_device = ''-'',
      zap_headendId = ''lineupId'', zap_isOverride = True, zap_languagecode = ''en'',
      zap_pref = [], zap_timespan = 84, zap_timezone = [], zap_userId = ''-'',
      zap_postalCode = ''97201'', output_file = ''xmltv.xml''\<rparr>"

definition bucket_A :: string where
  \<open>bucket_A =
     ''{"channels":[{"channelNo":"2.1","channelId":"100","callSign":"KAAA","thumbna'' @
     ''il":null,"events":[{"startTime":"2020-06-28T12:00:00Z","endTime":"2020-06-28'' @
     ''T13:00:00Z","duration":"60","filter":[],"thumbnail":null,"rating":null,"flag'' @
     ''":[],"program":{"title":"News","episodeTitle":null,"shortDesc":null,"release'' @
     ''Year":null,"season":null,"episode":null}}]},{"channelNo":"4.1","channelId":"'' @
     ''200","callSign":"KBBB","thumbnail":null,"events":[{"startTime":"2020-06-28T1'' @
     ''2:00:00Z","endTime":"2020-06-28T13:00:00Z","duration":"60","filter":[],"thum'' @
     ''bnail":null,"rating":null,"flag":[],"program":{"title":"Film","episodeTitle"'' @
     '':null,"shortDesc":null,"releaseYear":null,"season":null,"episode":null}}]}]}''\<close>

definition bucket_B :: string where
  \<open>bucket_B =
     ''{"channels":[{"channelNo":"2.1","channelId":"100","callSign":"KAAA","thumbna'' @
     ''il":null,"events":[{"startTime":"2020-07-02T00:00:00Z","endTime":"2020-07-02'' @
     ''T01:00:00Z","duration":"60","filter":[],"thumbnail":null,"rating":null,"flag'' @
     ''":[],"program":{"title":"Talk","episodeTitle":null,"shortDesc":null,"release'' @
     ''Year":null,"season":null,"episode":null}}]},{"channelNo":"4.1","channelId":"'' @
     ''200","callSign":"KBBB","thumbnail":null,"events":[{"startTime":"2020-07-02T0'' @
     ''0:00:00Z","endTime":"2020-07-02T01:00:00Z","duration":"60","filter":[],"thum'' @
     ''bnail":null,"rating":null,"flag":[],"program":{"title":"Game","episodeTitle"'' @
     '':null,"shortDesc":null,"releaseYear":null,"season":null,"episode":null}}]}]}''\<close>

definition two_buckets :: world where
  "two_buckets =
     \<lparr>cache = [(''1593345600'', File bucket_A), (''1593648000'', File bucket_B)],
      now = 1593345700, net = offline, requests = [], sleeps = []\<rparr>"

definition feed_event :: "string \<Rightarrow> string \<Rightarrow> string \<Rightarrow> event" where
  "feed_event t start stop =
     \<lparr>program = \<lparr>title = Some t, episodeTitle = None, shortDesc = None, releaseYear = None,
                  season = None, episode = None\<rparr>,
      startTime = start, endTime = stop, duration = Some ''60'', filter_tags = [],
      thumbnail = None, rating = None, flag = []\<rparr>"

definition payload_B :: payload where
  "payload_B =
     \<lparr>channels =
        [\<lparr>channelNo = ''2.1'', channelId = ''100'', callSign = ''KAAA'', channel_thumbnail = None,
          events = [feed_event ''Talk'' ''2020-07-02T00:00:00Z'' ''2020-07-02T01:00:00Z'']\<rparr>,
         \<lparr>channelNo = ''4.1'', channelId = ''200'', callSign = ''KBBB'', channel_thumbnail = None,
          events = [feed_event ''Game'' ''2020-07-02T00:00:00Z'' ''2020-07-02T01:00:00Z'']\<rparr>]\<rparr>"

definition payload_A :: payload where
  "payload_A =
     \<lparr>channels =
        [\<lparr>channelNo = ''2.1'', channelId = ''100'', callSign = ''KAAA'', channel_thumbnail = None,
          events = [feed_event ''News'' ''2020-06-28T12:00:00Z'' ''2020-06-28T13:00:00Z'']\<rparr>,
         \<lparr>channelNo = ''4.1'', channelId = ''200'', callSign = ''KBBB'', channel_thumbnail = None,
          events = [feed_event ''Film'' ''2020-06-28T12:00:00Z'' ''2020-06-28T13:00:00Z'']\<rparr>]\<rparr>"

text \<open>
  The same run where the cache holds bucket A for the first planned bucket and, for the
  second, the payload without channels that \<open>get_cached\<close> stores after a status 400.
\<close>

definition first_bucket_only :: world where
  "first_bucket_only =
     \<lparr>cache = [(''1593345600'', File bucket_A), (''1593648000'', File placeholder)],
      now = 1593345700, net = offline, requests = [], sleeps = []\<rparr>"






section \<open>Properties\<close>

subsection \<open>The planner\<close>

lemma n_buckets_pos: "0 < span \<Longrightarrow> n_buckets span = nat (168 div span)"
  by (simp add: n_buckets_def trunc_div_def)


lemma first_zap_time_pos:
  "0 < span \<Longrightarrow> first_zap_time t (span * 3600) = Inr (t - t mod (span * 3600))"
  by (simp add: first_zap_time_def)

lemma length_i_times: "0 < span \<Longrightarrow> length (i_times span zt win) = nat (168 div span)"
  by (simp add: i_times_def n_buckets_pos)

lemma i_times_step:
  "0 < span \<Longrightarrow> Suc i < nat (168 div span) \<Longrightarrow>
   i_times span zt win ! Suc i - i_times span zt win ! i = win"
  by (simp add: i_times_def n_buckets_pos algebra_simps)

lemma buckets_pos: "0 < (span::int) \<Longrightarrow> span dvd 168 \<Longrightarrow> 0 < 168 div span"
  by (simp add: pos_imp_zdiv_pos_iff zdvd_imp_le)

lemma i_times_first: "0 < span \<Longrightarrow> span dvd 168 \<Longrightarrow> i_times span zt win ! 0 = zt"
  using buckets_pos[of span] by (simp add: i_times_def n_buckets_pos)

lemma aligned: "(win::int) dvd (t - t mod win)"
  by (simp add: minus_mod_eq_mult_div)

text \<open>
  C7. For a bucket span (in hours) that is positive and divides 168, and any reference time
  \<open>t\<close>: the first bucket is \<open>t\<close> aligned down to a multiple of \<open>span * 3600\<close> seconds,
  so it is at or before \<open>t\<close> and less than one window before it; the loop of line 167
  computes \<open>168 / span\<close> bucket times, the first being that aligned time, and each is
  \<open>span * 3600\<close> seconds after the one before.
\<close>

theorem planner_buckets:
  assumes "0 < span" and "span dvd 168"
  shows "first_zap_time t (span * 3600) = Inr (t - t mod (span * 3600))
       \<and> length (i_times span (t - t mod (span * 3600)) (span * 3600)) = nat (168 div span)
       \<and> int (length (i_times span (t - t mod (span * 3600)) (span * 3600))) * span = 168
       \<and> (\<forall>i. Suc i < nat (168 div span) \<longrightarrow>
             i_times span (t - t mod (span * 3600)) (span * 3600) ! Suc i
             - i_times span (t - t mod (span * 3600)) (span * 3600) ! i = span * 3600)
       \<and> i_times span (t - t mod (span * 3600)) (span * 3600) ! 0 = t - t mod (span * 3600)
       \<and> t - t mod (span * 3600) \<le> t
       \<and> t < t - t mod (span * 3600) + span * 3600
       \<and> (span * 3600) dvd (t - t mod (span * 3600))"
proof -
  from assms have pos: "0 < span * 3600" by simp
  have len: "length (i_times span (t - t mod (span * 3600)) (span * 3600)) = nat (168 div span)"
    using assms by (simp add: length_i_times)
  from assms have "168 div span * span = 168" by simp
  moreover from assms have "0 < 168 div span" by (rule buckets_pos)
  ultimately have cover: "int (length (i_times span (t - t mod (span * 3600)) (span * 3600))) * span = 168"
    using len by simp
  have le: "t - t mod (span * 3600) \<le> t" using pos by simp
  have lt: "t < t - t mod (span * 3600) + span * 3600" using pos by simp
  show ?thesis
    using assms len cover le lt
    by (simp add: first_zap_time_pos i_times_step i_times_first aligned)
qed

theorem planner_buckets_witness:
  "(0::int) < 3 \<and> (3::int) dvd 168
   \<and> first_zap_time 1593345700 (3 * 3600) = Inr 1593345600
   \<and> length (i_times 3 1593345600 10800) = 56
   \<and> i_times 3 1593345600 10800 ! 0 = 1593345600
   \<and> i_times 3 1593345600 10800 ! 1 - i_times 3 1593345600 10800 ! 0 = 10800"
proof -
  have p: "(0::int) < 3" and d: "(3::int) dvd 168" by simp_all
  from planner_buckets[of 3 1593345700, OF p d] show ?thesis
    by (elim conjE allE[where x = 0]) simp
qed

subsection \<open>Eviction\<close>

lemma remove_loop_filter:
  "list_all (\<lambda>(name, nd). kept t name \<or> nd \<noteq> Dir) ps \<Longrightarrow>
   remove_loop t ps dir = (Inr (), filter (\<lambda>(name, nd). kept t name \<or> name \<notin> fst ` set ps) dir)"
proof (induction ps arbitrary: dir)
  case Nil
  then show ?case by simp
next
  case (Cons p ps)
  obtain name nd where p: "p = (name, nd)" by (cases p)
  show ?case
  proof (cases "kept t name")
    case True
    with Cons p have "remove_loop t (p # ps) dir =
        (Inr (), filter (\<lambda>(name, nd). kept t name \<or> name \<notin> fst ` set ps) dir)"
      by simp
    also have "filter (\<lambda>(name, nd). kept t name \<or> name \<notin> fst ` set ps) dir =
        filter (\<lambda>(name, nd). kept t name \<or> name \<notin> fst ` set (p # ps)) dir"
      using True p by (intro filter_cong) auto
    finally show ?thesis .
  next
    case False
    with Cons.prems p obtain bytes where nd: "nd = File bytes" by (cases nd) auto
    from Cons.prems have "list_all (\<lambda>(name, nd). kept t name \<or> nd \<noteq> Dir) ps" by simp
    from Cons.IH[OF this] False p nd
    have "remove_loop t (p # ps) dir =
        (Inr (), filter (\<lambda>(name, nd). kept t name \<or> name \<notin> fst ` set ps)
                   (filter (\<lambda>(n, nd). n \<noteq> name) dir))"
      by simp
    also have "filter (\<lambda>(name, nd). kept t name \<or> name \<notin> fst ` set ps)
                   (filter (\<lambda>(n, nd). n \<noteq> name) dir) =
        filter (\<lambda>(name, nd). kept t name \<or> name \<notin> fst ` set (p # ps)) dir"
      using False p by (induction dir) auto
    finally show ?thesis .
  qed
qed

lemma kept_iff: "kept t name \<longleftrightarrow> (\<exists>k. py_int name = Inr k \<and> t \<le> k)"
  by (auto simp: kept_def split: sum.splits)

lemma remove_stale_cache_filter:
  assumes "list_all (\<lambda>(name, nd). kept t name \<or> nd \<noteq> Dir) (cache w)"
  shows "remove_stale_cache t w = (Inr (), w\<lparr>cache := filter (\<lambda>(name, nd). kept t name) (cache w)\<rparr>)"
proof -
  have "filter (\<lambda>(name, nd). kept t name \<or> name \<notin> fst ` set (cache w)) (cache w) =
        filter (\<lambda>(name, nd). kept t name) (cache w)"
    by (intro filter_cong) force+
  with remove_loop_filter[OF assms, of "cache w"] show ?thesis
    by (simp add: remove_stale_cache_def)
qed

lemmas int_eval = py_int_def strip_def is_space_def unsigned_val_def is_digit_def digit_val_def

text \<open>
  C2, as the code has it. Take a cache directory whose entries have names of ASCII
  characters, at most 255 bytes long, and where every entry that is not kept is a
  regular file. Eviction removes exactly the entries whose name is not kept and returns
  without an error; a name is kept exactly when it parses as an integer that is at
  least the first bucket. So an entry is removed when its name parses as a smaller
  integer, and also when its name does not parse as an integer at all.
\<close>

theorem remove_stale_cache_evicts:
  assumes "list_all (\<lambda>(name, nd). short_ascii name) (cache w)"
    and "list_all (\<lambda>(name, nd). kept t name \<or> nd \<noteq> Dir) (cache w)"
  shows "remove_stale_cache t w = (Inr (), w\<lparr>cache := filter (\<lambda>(name, nd). kept t name) (cache w)\<rparr>)
       \<and> (\<forall>name. kept t name \<longleftrightarrow> (\<exists>k. py_int name = Inr k \<and> t \<le> k))"
  using remove_stale_cache_filter[OF assms(2)] kept_iff by simp

theorem remove_stale_cache_evicts_witness:
  "list_all (\<lambda>(name, nd). short_ascii name) (cache eviction_example)
   \<and> list_all (\<lambda>(name, nd). kept 300 name \<or> nd \<noteq> Dir) (cache eviction_example)
   \<and> remove_stale_cache 300 eviction_example
       = (Inr (), eviction_example\<lparr>cache := [(''300'', File ''c'')]\<rparr>)"
proof -
  have a: "list_all (\<lambda>(name, nd). short_ascii name) (cache eviction_example)"
    by (simp add: eviction_example_def short_ascii_def)
  have h: "list_all (\<lambda>(name, nd). kept 300 name \<or> nd \<noteq> Dir) (cache eviction_example)"
    by (simp add: eviction_example_def)
  from remove_stale_cache_evicts[OF a h] a h show ?thesis
    by (simp add: eviction_example_def kept_def int_eval)
qed

text \<open>
  C2, as the claim states it, fails: with first bucket 200 the file \<^verbatim>\<open>notes.txt\<close>, whose
  name does not parse as an integer, is removed together with bucket 100.
\<close>

theorem remove_stale_cache_non_numeric:
  "py_int ''notes.txt'' = Inl ValueError
   \<and> remove_stale_cache 200 eviction_example
       = (Inr (), eviction_example\<lparr>cache := [(''200'', File ''b''), (''300'', File ''c'')]\<rparr>)"
  by (simp add: remove_stale_cache_def eviction_example_def kept_def int_eval)

subsection \<open>The read-through cache\<close>













subsection \<open>Programmes\<close>

lemma bind_Inr: "bind m f = Inr y \<longleftrightarrow> (\<exists>x. m = Inr x \<and> f x = Inr y)"
  by (cases m) (simp_all add: bind_def)

lemma map_err_Cons_Inr:
  "map_err f (x # xs) = Inr ys \<longleftrightarrow> (\<exists>y ys'. f x = Inr y \<and> map_err f xs = Inr ys' \<and> ys = y # ys')"
  by (auto simp: bind_Inr)



lemma sub_el_shape [simp]:
  "tag (sub_el p n t k) = tag p" "attrib (sub_el p n t k) = attrib p"
  "etext (sub_el p n t k) = etext p" "children (sub_el p n t k) = children p @ [new_el n t k]"
  by (simp_all add: sub_el_def append_child_def)

lemma append_child_shape [simp]:
  "tag (append_child p c) = tag p" "attrib (append_child p c) = attrib p"
  "etext (append_child p c) = etext p" "children (append_child p c) = children p @ [c]"
  by (simp_all add: append_child_def)



















subsection \<open>Evaluating the model on the examples\<close>

lemmas time_eval = tm_parse_def strftime_def num2_def days_in_month_def pad2_def fmt_02d_def
  str_int_def str_nat.simps digit_char_def is_digit_def digit_val_def
lemmas xml_eval = new_el_def sub_el_def append_child_def set_child_def truthy_def str_opt_def
lemmas prog_eval = Let_def emit_programmes_def channel_body_def event_body_def programme_el_def
  channel_id_def details_def add_title_def add_sub_title_def str_add_def set_desc_def add_desc_def
  add_length_def add_filters_def add_icon_def add_rating_def add_episode_num_def add_new_def
lemmas example_eval = base_event_def base_program_def bare_def tv_root_def


text \<open>
  C4 at a payload of one channel with two events, the first with the short description
  \<^verbatim>\<open>Headlines.\<close>, the second with none. The programme of the first event has no
  children, so no \<^verbatim>\<open>desc\<close>; the programme of the second, the last of its channel, has
  a \<^verbatim>\<open>desc\<close> with the text \<^verbatim>\<open>Unavailable\<close>.
\<close>

theorem desc_missing_on_earlier_event:
  "(case emit_programmes \<lparr>out = tv_root, cur = None\<rparr> \<lparr>channels = [desc_channel]\<rparr> of
      Inl e \<Rightarrow> [] | Inr l \<Rightarrow> children (out l)) =
   [bare,
    Element ''programme'' (attrib bare) None
      [Element ''title'' [(''lang'', ''en'')] (Some ''News'') [],
       Element ''desc'' [(''lang'', ''en'')] (Some ''Unavailable'') [],
       Element ''length'' [(''units'', ''minutes'')] (Some ''60'') []]]"
  by (simp add: desc_channel_def example_eval prog_eval time_eval xml_eval)

text \<open>
  C8 at a payload of one channel with two events, both of season \<^verbatim>\<open>1\<close>, episode \<^verbatim>\<open>5\<close>.
  The programme of the first event has no children, so no \<^verbatim>\<open>episode-num\<close>; the
  programme of the last event has the three elements, with the texts \<^verbatim>\<open>S01E05\<close>,
  \<^verbatim>\<open>0.4.\<close> and \<^verbatim>\<open>S01E05\<close>.
\<close>

theorem episode_num_missing_on_earlier_event:
  \<open>(case emit_programmes \<lparr>out = tv_root, cur = None\<rparr> \<lparr>channels = [episode_channel]\<rparr> of
      Inl e \<Rightarrow> [] | Inr l \<Rightarrow> children (out l)) =
   [bare,
    Element ''programme'' (attrib bare) None
      [Element ''title'' [(''lang'', ''en'')] (Some ''News'') [],
       Element ''desc'' [(''lang'', ''en'')] (Some ''Headlines.'') [],
       Element ''length'' [(''units'', ''minutes'')] (Some ''60'') [],
       Element ''episode-num'' [(''system'', ''common'')] (Some ''S01E05'') [],
       Element ''episode-num'' [(''system'', ''xmltv_ns'')] (Some ''0.4.'') [],
       Element ''episode-num'' [(''system'', ''SxxExx">S'')] (Some ''S01E05'') []]]\<close>
  by (simp add: episode_channel_def example_eval prog_eval time_eval xml_eval int_eval)

text \<open>
  C9 at a payload of one channel with two events, the first flagged \<^verbatim>\<open>New\<close>, the second
  \<^verbatim>\<open>New\<close> and \<^verbatim>\<open>live\<close>: no programme has a \<^verbatim>\<open>new\<close> element, not even that of the
  first event. Where the event flagged \<^verbatim>\<open>New\<close> is the last of its channel, its
  programme has the element.
\<close>

theorem new_missing_on_earlier_event:
  "(case emit_programmes \<lparr>out = tv_root, cur = None\<rparr> \<lparr>channels = [new_channel]\<rparr> of
      Inl e \<Rightarrow> [] | Inr l \<Rightarrow> children (out l)) =
   [bare,
    Element ''programme'' (attrib bare) None
      [Element ''title'' [(''lang'', ''en'')] (Some ''News'') [],
       Element ''desc'' [(''lang'', ''en'')] (Some ''Headlines.'') [],
       Element ''length'' [(''units'', ''minutes'')] (Some ''60'') []]]
   \<and> (case emit_programmes \<lparr>out = tv_root, cur = None\<rparr> \<lparr>channels = [new_only_channel]\<rparr> of
      Inl e \<Rightarrow> [] | Inr l \<Rightarrow> children (out l)) =
   [Element ''programme'' (attrib bare) None
      [Element ''title'' [(''lang'', ''en'')] (Some ''News'') [],
       Element ''desc'' [(''lang'', ''en'')] (Some ''Headlines.'') [],
       Element ''length'' [(''units'', ''minutes'')] (Some ''60'') [],
       Element ''new'' [] None []]]"
  by (simp add: new_channel_def new_only_channel_def example_eval prog_eval time_eval xml_eval)

text \<open>
  Outside the scope of C10: a channel without events. As the first channel it makes line
  219 read an unbound variable; after a channel with events it makes lines 219 to 256 run a
  second time on the programme of that channel's last event.
\<close>

lemma channel_without_events:
  "(case emit_programmes \<lparr>out = tv_root, cur = None\<rparr> \<lparr>channels = [one_event_channel, example_channel]\<rparr> of
      Inl e \<Rightarrow> [] | Inr l \<Rightarrow> children (out l)) =
   [Element ''programme'' (attrib bare) None
      [Element ''title'' [(''lang'', ''en'')] (Some ''News'') [],
       Element ''desc'' [(''lang'', ''en'')] (Some ''Headlines.'') [],
       Element ''length'' [(''units'', ''minutes'')] (Some ''60'') [],
       Element ''title'' [(''lang'', ''en'')] (Some ''News'') [],
       Element ''desc'' [(''lang'', ''en'')] (Some ''Headlines.'') [],
       Element ''length'' [(''units'', ''minutes'')] (Some ''60'') []]]
   \<and> emit_programmes \<lparr>out = tv_root, cur = None\<rparr> \<lparr>channels = [example_channel]\<rparr> = Inl UnboundLocalError"
  by (simp add: one_event_channel_def example_channel_def example_eval prog_eval time_eval xml_eval)

subsection \<open>A whole run\<close>

lemma upt_2: "[0..<2] = [0, Suc 0]"
  by (simp add: upt_rec)

lemma i_times_84: "i_times 84 1593345600 302400 = [1593345600, 1593648000]"
  by (simp add: i_times_def n_buckets_def trunc_div_def upt_2)

lemma key_B: "str_int 1593648000 = ''1593648000''"
  by (simp add: str_int_def str_nat.simps digit_char_def)

lemma kept_A: "kept 1593345600 ''1593345600''" and kept_B: "kept 1593345600 ''1593648000''"
  by (simp_all add: kept_def int_eval)

lemma evict_two: "remove_stale_cache 1593345600 two_buckets = (Inr (), two_buckets)"
  by (simp add: remove_stale_cache_def two_buckets_def kept_A kept_B)

lemma plan_84: "plan_loop example_args 1593345600 302400 = Some (1593648000, parameters_of example_args 1593648000)"
  by (simp add: plan_loop_def example_args_def i_times_84)

lemma fetch_B: "get_cached ''1593648000'' d url two_buckets = (Inr bucket_B, two_buckets)"
  by (simp add: get_cached_def two_buckets_def)


lemma channels_B:
  "emit_channels False tv_root payload_B =
      (True, Element ''tv'' (attrib tv_root) None
         (map channel_el (channels payload_B)))"
  by (simp add: emit_channels_def payload_B_def tv_root_def append_child_def)

lemma programmes_B:
  "emit_programmes
      \<lparr>out = Element ''tv'' (attrib tv_root) None
         (map channel_el (channels payload_B)), cur = None\<rparr> payload_B
      = Inr \<lparr>out = Element ''tv'' (attrib tv_root) None
        (map channel_el (channels payload_B) @
        [Element ''programme''
           [(''start'', ''20200702000000 +0000''), (''stop'', ''20200702010000 +0000''),
            (''channel'', ''I2.1.100.zap2it.com'')] None
           [Element ''title'' [(''lang'', ''en'')] (Some ''Talk'') [],
            Element ''desc'' [(''lang'', ''en'')] (Some ''Unavailable'') [],
            Element ''length'' [(''units'', ''minutes'')] (Some ''60'') []],
         Element ''programme''
           [(''start'', ''20200702000000 +0000''), (''stop'', ''20200702010000 +0000''),
            (''channel'', ''I4.1.200.zap2it.com'')] None
           [Element ''title'' [(''lang'', ''en'')] (Some ''Game'') [],
            Element ''desc'' [(''lang'', ''en'')] (Some ''Unavailable'') [],
            Element ''length'' [(''units'', ''minutes'')] (Some ''60'') []]]),
        cur = Some (feed_event ''Game'' ''2020-07-02T00:00:00Z'' ''2020-07-02T01:00:00Z'',
                    \<lparr>title = Some ''Game'', episodeTitle = None, shortDesc = Some ''Unavailable'',
                      releaseYear = None, season = None, episode = None\<rparr>, 3)\<rparr>"
  by (simp add: payload_B_def feed_event_def prog_eval time_eval xml_eval)


lemma decode_bucket_B: "bind (json_loads bucket_B) payload_of = Inr payload_B"
  by code_simp

lemma start_84: "first_zap_time (now two_buckets) 302400 = Inr 1593345600"
  by (simp add: first_zap_time_def two_buckets_def)

lemma window_84: "zap_timespan example_args * 3600 = 302400"
  by (simp add: example_args_def)

text \<open>
  C1 at a run with two planned buckets, both in the cache: bucket A with two channels and
  one event each, bucket B with the same two channels and one other event each. The run
  reads bucket B only, the last one planned: the document has the two channel elements
  and the two programmes of bucket B, and none of bucket A. No request is made and the
  cache is left as it was.
\<close>

theorem main_reads_last_bucket_only:
  "main example_args two_buckets =
     (Inr (Element ''tv'' (attrib tv_root) None
        (map channel_el (channels payload_B) @
        [Element ''programme''
           [(''start'', ''20200702000000 +0000''), (''stop'', ''20200702010000 +0000''),
            (''channel'', ''I2.1.100.zap2it.com'')] None
           [Element ''title'' [(''lang'', ''en'')] (Some ''Talk'') [],
            Element ''desc'' [(''lang'', ''en'')] (Some ''Unavailable'') [],
            Element ''length'' [(''units'', ''minutes'')] (Some ''60'') []],
         Element ''programme''
           [(''start'', ''20200702000000 +0000''), (''stop'', ''20200702010000 +0000''),
            (''channel'', ''I4.1.200.zap2it.com'')] None
           [Element ''title'' [(''lang'', ''en'')] (Some ''Game'') [],
            Element ''desc'' [(''lang'', ''en'')] (Some ''Unavailable'') [],
            Element ''length'' [(''units'', ''minutes'')] (Some ''60'') []]])),
      two_buckets)
   \<and> length (channels payload_B) = 2"
  by (simp add: main_def window_84 start_84 evict_two plan_84 key_B fetch_B decode_bucket_B
        channels_B programmes_B)
     (simp add: payload_B_def)

subsection \<open>A run whose request fails\<close>



lemmas json_eval = is_ws_def is_word_def punct_def unescape_def idle_step_def tokens_def
  json_nat_def word_value_def start_value_def json_loads_def is_ascii_def is_digit_def digit_val_def

lemma decode_placeholder: "bind (json_loads placeholder) payload_of = Inr \<lparr>channels = []\<rparr>"
  by (simp add: placeholder_def json_eval bind_def)

lemma empty_payload:
  "emit_channels False tv_root \<lparr>channels = []\<rparr> = (True, tv_root)"
  "emit_programmes \<lparr>out = tv_root, cur = None\<rparr> \<lparr>channels = []\<rparr> = Inr \<lparr>out = tv_root, cur = None\<rparr>"
  by (simp_all add: emit_channels_def emit_programmes_def)






subsection \<open>A run whose last bucket has no channels\<close>

lemma decode_bucket_A: "bind (json_loads bucket_A) payload_of = Inr payload_A"
  by code_simp

lemma start_first_only: "first_zap_time (now first_bucket_only) 302400 = Inr 1593345600"
  by (simp add: first_zap_time_def first_bucket_only_def)

lemma evict_first_only: "remove_stale_cache 1593345600 first_bucket_only = (Inr (), first_bucket_only)"
  by (simp add: remove_stale_cache_def first_bucket_only_def kept_A kept_B)

lemma fetch_first_only: "get_cached ''1593648000'' d url first_bucket_only = (Inr placeholder, first_bucket_only)"
  by (simp add: get_cached_def first_bucket_only_def)

text \<open>
  C3 at a run with two planned buckets, both in the cache: bucket A, the first, lists the
  channels 2.1 and 4.1, and the second is the payload without channels. The run reads the
  second bucket only, the last one planned, and ends with a document without any channel
  element: the channel list of the first bucket whose list is not empty is never read.
\<close>

theorem channels_of_first_bucket_lost:
  "bind (json_loads bucket_A) payload_of = Inr payload_A
   \<and> map channelNo (channels payload_A) = [''2.1'', ''4.1'']
   \<and> bind (json_loads placeholder) payload_of = Inr \<lparr>channels = []\<rparr>
   \<and> main example_args first_bucket_only = (Inr tv_root, first_bucket_only)"
  by (simp add: decode_bucket_A decode_placeholder main_def window_84 start_first_only
        evict_first_only plan_84 key_B fetch_first_only empty_payload)
     (simp add: payload_A_def)
end
